theory Spec2Isabelle
  imports Complex_Main
begin

section \<open>Keplerian orbit propagation: kepler\_sim.c and kepler\_sim\_3d.c\<close>

text \<open>
  The two simulators share one calculation. It is embedded here in exact arithmetic:
  a finite \<open>double\<close> is a real number, and the library functions \<open>sin\<close>, \<open>cos\<close>,
  \<open>sqrt\<close>, \<open>pow\<close>, \<open>fmod\<close> and \<open>atan2\<close> are the mathematical functions. Overflow
  and signed zeros are not modelled, and rounding is modelled in one place only: the
  last addition of \<open>calculate_longitude\<close>, \<open>longitude_deg += 360\<close>, is the addition of
  doubles, rounded to the nearest double, because that rounding decides whether the
  result stays below 360. A \<open>double\<close> that the code computes and that may be
  not-a-number is a \<open>real option\<close>, with \<open>None\<close> for \<open>NAN\<close>. The orbital elements read
  by the calculation are finite numbers.
\<close>

subsection \<open>Constants and data\<close>

type_synonym double = "real option"

abbreviation NAN :: double where
  "NAN \<equiv> None"

type_synonym time_t = int

definition M_PI :: real where
  "M_PI = 3.14159265358979323846"

definition SECONDS_IN_DAY :: int where
  "SECONDS_IN_DAY = 24 * 60 * 60"

text \<open>
  \<open>struct Planet\<close> of kepler\_sim.c. The field \<open>id\<close> of the source is \<open>id_str\<close> here.
\<close>

record Planet =
  name :: string
  id_str :: string
  eccentricity :: real
  semi_major_axis_au :: real
  inclination_deg :: real
  lon_asc_node_deg :: real
  arg_periapsis_deg :: real
  mean_anomaly_deg :: real
  epoch :: time_t

text \<open>
  \<open>struct Planet\<close> of kepler\_sim\_3d.c: the same fields, followed by the calculated
  position.
\<close>

record Planet3D = Planet +
  x :: double
  y :: double
  z :: double

subsection \<open>Addition of doubles\<close>

text \<open>
  A \<open>double\<close> is an IEEE 754 binary64 number with 53 significant bits: the doubles
  from \<open>2 ^ k\<close> up to \<open>2 ^ (k + 1)\<close> are \<open>2 ^ (k - 52)\<close> apart, and those below
  \<open>2 ^ (- 1022)\<close> are \<open>2 ^ (- 1074)\<close> apart. \<open>ulp v\<close> is that distance around \<open>v\<close>.
  The sum of two doubles is the double nearest to the exact sum and, of two nearest
  doubles, the one whose last bit is zero. Sums beyond the largest double do not occur
  in the calculation.
\<close>

definition round_half_even :: "real \<Rightarrow> int" where
  "round_half_even r =
     (if r - real_of_int \<lfloor>r\<rfloor> < 1 / 2 then \<lfloor>r\<rfloor>
      else if 1 / 2 < r - real_of_int \<lfloor>r\<rfloor> then \<lfloor>r\<rfloor> + 1
      else if even \<lfloor>r\<rfloor> then \<lfloor>r\<rfloor>
      else \<lfloor>r\<rfloor> + 1)"

definition ulp :: "real \<Rightarrow> real" where
  "ulp v = 2 powr real_of_int (max \<lfloor>log 2 \<bar>v\<bar>\<rfloor> (- 1022) - 52)"

definition round_double :: "real \<Rightarrow> real" where
  "round_double v =
     (if v = 0 then 0 else real_of_int (round_half_even (v / ulp v)) * ulp v)"

definition double_add :: "real \<Rightarrow> real \<Rightarrow> real" where
  "double_add a b = round_double (a + b)"

subsection \<open>Library functions\<close>

text \<open>\<open>difftime(t1, t0)\<close>: the difference in seconds, as a \<open>double\<close>.\<close>

definition difftime :: "time_t \<Rightarrow> time_t \<Rightarrow> real" where
  "difftime t1 t0 = real_of_int (t1 - t0)"

text \<open>
  \<open>pow(b, 3)\<close>: the only call of \<open>pow\<close> has the integer exponent 3, so the exponent
  is a natural number here.
\<close>

definition pow :: "real \<Rightarrow> nat \<Rightarrow> real" where
  "pow b n = b ^ n"

text \<open>\<open>sqrt\<close> of C: not-a-number on a negative argument.\<close>

definition sqrt_c :: "real \<Rightarrow> double" where
  "sqrt_c v = (if v < 0 then NAN else Some (sqrt v))"

text \<open>
  \<open>fmod(a, b)\<close> is \<open>a - n * b\<close>, where \<open>n\<close> is \<open>a / b\<close> with its fractional part
  cut off (rounded towards zero). The result has the sign of \<open>a\<close>. Every call has
  the divisor \<open>360.0\<close>.
\<close>

definition trunc :: "real \<Rightarrow> int" where
  "trunc r = (if 0 \<le> r then \<lfloor>r\<rfloor> else \<lceil>r\<rceil>)"

definition fmod :: "real \<Rightarrow> real \<Rightarrow> real" where
  "fmod a b = a - real_of_int (trunc (a / b)) * b"

text \<open>
  \<open>atan2(v, u)\<close>: the angle of the point \<open>(u, v)\<close>, in \<open>(-\<pi>, \<pi>]\<close>. At the origin the
  C function returns a zero or \<open>\<plusminus>\<pi>\<close> by the signs of its zero arguments; the model
  has the zero.
\<close>

definition atan2 :: "real \<Rightarrow> real \<Rightarrow> real" where
  "atan2 v u =
     (if 0 < u then arctan (v / u)
      else if u < 0 then (if 0 \<le> v then arctan (v / u) + pi else arctan (v / u) - pi)
      else if 0 < v then pi / 2
      else if v < 0 then - (pi / 2)
      else 0)"

subsection \<open>The calculation shared by \<open>calculate_longitude\<close> and \<open>calculate_position\<close>\<close>

text \<open>
  The mean anomaly propagated to the current date, in degrees and in radians. The code
  computes the mean motion after its test of the semi-major axis, so the argument of
  \<open>sqrt\<close> is positive there.
\<close>

definition days_since_epoch :: "'a Planet_scheme \<Rightarrow> time_t \<Rightarrow> real" where
  "days_since_epoch planet current_date =
     difftime current_date (epoch planet) / real_of_int SECONDS_IN_DAY"

definition mean_motion :: "'a Planet_scheme \<Rightarrow> real" where
  "mean_motion planet = 360 / (sqrt (pow (semi_major_axis_au planet) 3) * 365.25)"

definition mean_anomaly :: "'a Planet_scheme \<Rightarrow> time_t \<Rightarrow> real" where
  "mean_anomaly planet current_date =
     fmod (mean_anomaly_deg planet + mean_motion planet * days_since_epoch planet current_date) 360"

definition M_rad :: "'a Planet_scheme \<Rightarrow> time_t \<Rightarrow> real" where
  "M_rad planet current_date = mean_anomaly planet current_date * M_PI / 180"

text \<open>
  The body of the \<open>for\<close> loop. A zero divisor makes the quotient an infinity or
  not-a-number in C, and the sine and cosine of an infinity are not-a-number, so every
  output computed from it is not-a-number: the model has not-a-number at once.
\<close>

definition newton_update :: "real \<Rightarrow> real \<Rightarrow> double \<Rightarrow> double" where
  "newton_update e M E =
     (case E of
        None \<Rightarrow> NAN
      | Some E_rad \<Rightarrow>
          if 1 - e * cos E_rad = 0 then NAN
          else Some (E_rad - (E_rad - e * sin E_rad - M) / (1 - e * cos E_rad)))"

text \<open>\<open>for (int i = 0; i < 10; i++) E_rad = ...\<close>, entered with \<open>i\<close> and \<open>E_rad\<close>.\<close>

function kepler_for :: "int \<Rightarrow> real \<Rightarrow> real \<Rightarrow> double \<Rightarrow> double" where
  "kepler_for i e M E =
     (if i < 10 then kepler_for (i + 1) e M (newton_update e M E) else E)"
  by pat_completeness auto
termination
  by (relation "measure (\<lambda>(i, e, M, E). nat (10 - i))") auto

declare kepler_for.simps [simp del]

text \<open>The position in the orbital plane.\<close>

definition x_orb :: "'a Planet_scheme \<Rightarrow> real \<Rightarrow> real" where
  "x_orb planet E_rad = semi_major_axis_au planet * (cos E_rad - eccentricity planet)"

definition y_orb :: "'a Planet_scheme \<Rightarrow> real \<Rightarrow> double" where
  "y_orb planet E_rad =
     (case sqrt_c (1 - eccentricity planet * eccentricity planet) of
        None \<Rightarrow> NAN
      | Some r \<Rightarrow> Some (semi_major_axis_au planet * r * sin E_rad))"

text \<open>The rotation into the ecliptic frame.\<close>

definition w_rad :: "'a Planet_scheme \<Rightarrow> real" where
  "w_rad planet = arg_periapsis_deg planet * M_PI / 180"

definition N_rad :: "'a Planet_scheme \<Rightarrow> real" where
  "N_rad planet = lon_asc_node_deg planet * M_PI / 180"

definition i_rad :: "'a Planet_scheme \<Rightarrow> real" where
  "i_rad planet = inclination_deg planet * M_PI / 180"

definition x_ecl :: "'a Planet_scheme \<Rightarrow> real \<Rightarrow> real \<Rightarrow> real" where
  "x_ecl planet xo yo =
     xo * (cos (w_rad planet) * cos (N_rad planet)
             - sin (w_rad planet) * sin (N_rad planet) * cos (i_rad planet))
     - yo * (sin (w_rad planet) * cos (N_rad planet)
             + cos (w_rad planet) * sin (N_rad planet) * cos (i_rad planet))"

definition y_ecl :: "'a Planet_scheme \<Rightarrow> real \<Rightarrow> real \<Rightarrow> real" where
  "y_ecl planet xo yo =
     xo * (cos (w_rad planet) * sin (N_rad planet)
             + sin (w_rad planet) * cos (N_rad planet) * cos (i_rad planet))
     + yo * (- sin (w_rad planet) * sin (N_rad planet)
             + cos (w_rad planet) * cos (N_rad planet) * cos (i_rad planet))"

definition z_ecl :: "'a Planet_scheme \<Rightarrow> real \<Rightarrow> real \<Rightarrow> real" where
  "z_ecl planet xo yo =
     xo * (sin (w_rad planet) * sin (i_rad planet))
     + yo * (cos (w_rad planet) * sin (i_rad planet))"

subsection \<open>\<open>calculate_longitude\<close> (kepler\_sim.c)\<close>

definition calculate_longitude :: "'a Planet_scheme \<Rightarrow> time_t \<Rightarrow> double" where
  "calculate_longitude planet current_date =
     (if semi_major_axis_au planet \<le> 0 then NAN
      else
        case kepler_for 0 (eccentricity planet) (M_rad planet current_date)
               (Some (M_rad planet current_date)) of
          None \<Rightarrow> NAN
        | Some E_rad \<Rightarrow>
            (case y_orb planet E_rad of
               None \<Rightarrow> NAN
             | Some yo \<Rightarrow>
                 let xo = x_orb planet E_rad;
                     longitude_rad = atan2 (y_ecl planet xo yo) (x_ecl planet xo yo);
                     longitude_deg = longitude_rad * (180 / M_PI)
                 in Some (if longitude_deg < 0 then double_add longitude_deg 360
                          else longitude_deg)))"

subsection \<open>\<open>calculate_position\<close> (kepler\_sim\_3d.c)\<close>

text \<open>The function writes the fields \<open>x\<close>, \<open>y\<close>, \<open>z\<close> of the planet it is given.\<close>

definition calculate_position :: "Planet3D \<Rightarrow> time_t \<Rightarrow> Planet3D" where
  "calculate_position planet current_date =
     (if semi_major_axis_au planet \<le> 0 then planet\<lparr>x := NAN, y := NAN, z := NAN\<rparr>
      else
        case kepler_for 0 (eccentricity planet) (M_rad planet current_date)
               (Some (M_rad planet current_date)) of
          None \<Rightarrow> planet\<lparr>x := NAN, y := NAN, z := NAN\<rparr>
        | Some E_rad \<Rightarrow>
            (case y_orb planet E_rad of
               None \<Rightarrow> planet\<lparr>x := NAN, y := NAN, z := NAN\<rparr>
             | Some yo \<Rightarrow>
                 let xo = x_orb planet E_rad
                 in planet\<lparr>x := Some (x_ecl planet xo yo),
                           y := Some (y_ecl planet xo yo),
                           z := Some (z_ecl planet xo yo)\<rparr>))"

subsection \<open>The simulation loops of \<open>main\<close>\<close>

text \<open>
  The output file is the list of its rows after the header. A row is the date, the
  \<open>time_t\<close> that the code formats with \<open>strftime\<close>, and the cells in the order they
  are printed. The array \<open>planets\<close> is a list and \<open>num_planets\<close> its length.
\<close>

text \<open>
  kepler\_sim.c: \<open>for (int i = 0; i < num_planets; i++)\<close>, printing one longitude
  for each planet, entered with \<open>i\<close>.
\<close>

function row_for :: "Planet list \<Rightarrow> time_t \<Rightarrow> nat \<Rightarrow> double list" where
  "row_for planets current_t i =
     (if i < length planets
      then calculate_longitude (planets ! i) current_t # row_for planets current_t (i + 1)
      else [])"
  by pat_completeness auto
termination
  by (relation "measure (\<lambda>(planets, current_t, i). length planets - i)") auto

text \<open>kepler\_sim.c: \<open>while (current_t <= end_t) { ... current_t += SECONDS_IN_DAY; }\<close>.\<close>

function simulation_loop :: "Planet list \<Rightarrow> time_t \<Rightarrow> time_t \<Rightarrow> (time_t \<times> double list) list" where
  "simulation_loop planets current_t end_t =
     (if current_t \<le> end_t
      then (current_t, row_for planets current_t 0)
             # simulation_loop planets (current_t + SECONDS_IN_DAY) end_t
      else [])"
  by pat_completeness auto
termination
  by (relation "measure (\<lambda>(planets, current_t, end_t). nat (end_t - current_t + 1))")
     (auto simp: SECONDS_IN_DAY_def)

text \<open>
  kepler\_sim\_3d.c: the inner loop calls \<open>calculate_position(&planets[i], current_t)\<close>
  and prints the three fields it has written. The array is changed in place, so the
  loop returns it with the cells.
\<close>

function row_for_3d ::
  "Planet3D list \<Rightarrow> time_t \<Rightarrow> nat \<Rightarrow> Planet3D list \<times> (double \<times> double \<times> double) list" where
  "row_for_3d planets current_t i =
     (if i < length planets
      then
        let planets' = planets[i := calculate_position (planets ! i) current_t];
            cell = (x (planets' ! i), y (planets' ! i), z (planets' ! i))
        in case row_for_3d planets' current_t (i + 1) of
             (planets'', cells) \<Rightarrow> (planets'', cell # cells)
      else (planets, []))"
  by pat_completeness auto
termination
  by (relation "measure (\<lambda>(planets, current_t, i). length planets - i)") auto

function simulation_loop_3d ::
  "Planet3D list \<Rightarrow> time_t \<Rightarrow> time_t \<Rightarrow> (time_t \<times> (double \<times> double \<times> double) list) list" where
  "simulation_loop_3d planets current_t end_t =
     (if current_t \<le> end_t
      then
        case row_for_3d planets current_t 0 of
          (planets', cells) \<Rightarrow>
            (current_t, cells) # simulation_loop_3d planets' (current_t + SECONDS_IN_DAY) end_t
      else [])"
  by pat_completeness auto
termination
  by (relation "measure (\<lambda>(planets, current_t, end_t). nat (end_t - current_t + 1))")
     (auto simp: SECONDS_IN_DAY_def)

declare row_for.simps [simp del] simulation_loop.simps [simp del]
  row_for_3d.simps [simp del] simulation_loop_3d.simps [simp del]

subsection \<open>Notions of the specification\<close>

text \<open>The orbital elements of a planet: the six elements and their epoch.\<close>

definition elements :: "'a Planet_scheme \<Rightarrow> real \<times> real \<times> real \<times> real \<times> real \<times> real \<times> time_t" where
  "elements planet =
     (eccentricity planet, semi_major_axis_au planet, inclination_deg planet,
      lon_asc_node_deg planet, arg_periapsis_deg planet, mean_anomaly_deg planet,
      epoch planet)"

text \<open>
  The angle in \<open>[0, 360)\<close> that differs from a given angle by a whole number of
  turns (\<open>normalize360\<close>), and one Newton-Raphson step for Kepler's equation
  \<open>M = E - e sin E\<close> on the real numbers.
\<close>

definition normalize360 :: "real \<Rightarrow> real" where
  "normalize360 d = d - 360 * real_of_int \<lfloor>d / 360\<rfloor>"

definition newton_raphson_step :: "real \<Rightarrow> real \<Rightarrow> real \<Rightarrow> real" where
  "newton_raphson_step e M E = E - (E - e * sin E - M) / (1 - e * cos E)"

text \<open>The position that \<open>calculate_position\<close> leaves in a planet.\<close>

definition position :: "Planet3D \<Rightarrow> time_t \<Rightarrow> double \<times> double \<times> double" where
  "position planet current_date =
     (x (calculate_position planet current_date),
      y (calculate_position planet current_date),
      z (calculate_position planet current_date))"

text \<open>
  The dates of an inclusive range stepped by whole days: \<open>start\<close>, one day later, and
  so on, as long as the date is not after \<open>end\<close>.
\<close>

definition num_days :: "time_t \<Rightarrow> time_t \<Rightarrow> nat" where
  "num_days start_t end_t =
     (if start_t \<le> end_t then nat ((end_t - start_t) div SECONDS_IN_DAY) + 1 else 0)"

definition dates :: "time_t \<Rightarrow> time_t \<Rightarrow> time_t list" where
  "dates start_t end_t =
     map (\<lambda>k. start_t + int k * SECONDS_IN_DAY) [0..<num_days start_t end_t]"

subsection \<open>Example planets\<close>

text \<open>
  The element set of the specification's concrete scenario, with its epoch at time 0,
  and a planet whose semi-major axis is zero.
\<close>

definition earth :: Planet where
  "earth = \<lparr>name = ''Earth'', id_str = ''399'', eccentricity = 0.0167,
     semi_major_axis_au = 1, inclination_deg = 0, lon_asc_node_deg = 0,
     arg_periapsis_deg = 0, mean_anomaly_deg = 0, epoch = 0\<rparr>"

definition pluto :: Planet where
  "pluto = \<lparr>name = ''Pluto'', id_str = ''999'', eccentricity = 0,
     semi_major_axis_au = 0, inclination_deg = 0, lon_asc_node_deg = 0,
     arg_periapsis_deg = 0, mean_anomaly_deg = 0, epoch = 0\<rparr>"

definition earth_3d :: Planet3D where
  "earth_3d = \<lparr>name = ''Earth'', id_str = ''399'', eccentricity = 0.0167,
     semi_major_axis_au = 1, inclination_deg = 0, lon_asc_node_deg = 0,
     arg_periapsis_deg = 0, mean_anomaly_deg = 0, epoch = 0,
     x = Some 0, y = Some 0, z = Some 0\<rparr>"

definition pluto_3d :: Planet3D where
  "pluto_3d = \<lparr>name = ''Pluto'', id_str = ''999'', eccentricity = 0,
     semi_major_axis_au = 0, inclination_deg = 0, lon_asc_node_deg = 0,
     arg_periapsis_deg = 0, mean_anomaly_deg = 0, epoch = 0,
     x = Some 0, y = Some 0, z = Some 0\<rparr>"

text \<open>Planets on a circular orbit, with three rotation angles that are not zero.\<close>

definition circular :: Planet where
  "circular = \<lparr>name = ''Venus'', id_str = ''299'', eccentricity = 0,
     semi_major_axis_au = 2, inclination_deg = 30, lon_asc_node_deg = 60,
     arg_periapsis_deg = 90, mean_anomaly_deg = 45, epoch = 0\<rparr>"

definition circular_3d :: Planet3D where
  "circular_3d = \<lparr>name = ''Venus'', id_str = ''299'', eccentricity = 0,
     semi_major_axis_au = 2, inclination_deg = 30, lon_asc_node_deg = 60,
     arg_periapsis_deg = 90, mean_anomaly_deg = 45, epoch = 0,
     x = Some 0, y = Some 0, z = Some 0\<rparr>"

text \<open>
  A body on a wide circular orbit, with a mean motion of about \<open>10\<^sup>-\<^sup>9\<close> degrees a day.
\<close>

definition distant :: Planet where
  "distant = \<lparr>name = ''Distant'', id_str = ''000'', eccentricity = 0,
     semi_major_axis_au = 1000000, inclination_deg = 0, lon_asc_node_deg = 0,
     arg_periapsis_deg = 0, mean_anomaly_deg = 0, epoch = 0\<rparr>"

section \<open>Properties\<close>

subsection \<open>What the calculation reads and writes\<close>

lemma elements_calculate_position:
  "elements (calculate_position p t) = elements p"
  by (simp add: calculate_position_def elements_def Let_def split: option.splits)

lemma shared_depends_on_elements:
  assumes "elements p = elements q"
  shows "M_rad p t = M_rad q t" and "eccentricity p = eccentricity q"
    and "semi_major_axis_au p = semi_major_axis_au q"
    and "x_orb p E = x_orb q E" and "y_orb p E = y_orb q E"
    and "x_ecl p a b = x_ecl q a b" and "y_ecl p a b = y_ecl q a b"
    and "z_ecl p a b = z_ecl q a b"
  using assms
  by (simp_all add: elements_def M_rad_def mean_anomaly_def mean_motion_def
      days_since_epoch_def x_orb_def y_orb_def x_ecl_def y_ecl_def z_ecl_def
      w_rad_def N_rad_def i_rad_def split: option.splits)

lemma position_depends_on_elements:
  assumes "elements p = elements q"
  shows "position p t = position q t"
  using shared_depends_on_elements[OF assms]
  by (simp add: position_def calculate_position_def Let_def split: option.splits)

lemma longitude_depends_on_elements:
  assumes "elements p = elements q"
  shows "calculate_longitude p t = calculate_longitude q t"
  using shared_depends_on_elements[OF assms]
  by (simp add: calculate_longitude_def Let_def split: option.splits)

lemma position_calculate_position:
  "position (calculate_position p t') t = position p t"
  by (rule position_depends_on_elements) (rule elements_calculate_position)

lemma calculate_position_writes:
  "calculate_position q t =
     q\<lparr>x := x (calculate_position q t), y := y (calculate_position q t),
       z := z (calculate_position q t)\<rparr>"
  by (simp add: calculate_position_def Let_def split: option.splits)

lemma calculate_position_twice:
  "calculate_position (calculate_position q t') t = calculate_position q t"
proof -
  have "position (calculate_position q t') t = position q t"
    by (rule position_calculate_position)
  then have xyz:
    "x (calculate_position (calculate_position q t') t) = x (calculate_position q t)"
    "y (calculate_position (calculate_position q t') t) = y (calculate_position q t)"
    "z (calculate_position (calculate_position q t') t) = z (calculate_position q t)"
    by (simp_all add: position_def)
  have "calculate_position (calculate_position q t') t =
      (calculate_position q t')\<lparr>x := x (calculate_position q t),
        y := y (calculate_position q t), z := z (calculate_position q t)\<rparr>"
    by (subst calculate_position_writes) (simp only: xyz)
  also have "\<dots> = q\<lparr>x := x (calculate_position q t), y := y (calculate_position q t),
       z := z (calculate_position q t)\<rparr>"
    by (subst calculate_position_writes[of q t']) simp
  also have "\<dots> = calculate_position q t"
    by (rule calculate_position_writes[symmetric])
  finally show ?thesis .
qed

subsection \<open>The loop of the Kepler solver\<close>

lemma kepler_for_funpow:
  "kepler_for i e M E = (newton_update e M ^^ nat (10 - i)) E"
proof (induction i e M E rule: kepler_for.induct)
  case (1 i e M E)
  show ?case
  proof (cases "i < 10")
    case True
    then have "nat (10 - i) = Suc (nat (10 - (i + 1)))"
      by simp
    then show ?thesis
      using True 1 by (subst kepler_for.simps) (simp add: funpow_swap1)
  next
    case False
    then show ?thesis by (subst kepler_for.simps) simp
  qed
qed

lemma newton_update_Some:
  "1 - e * cos E \<noteq> 0 \<Longrightarrow> newton_update e M (Some E) = Some (newton_raphson_step e M E)"
  by (simp add: newton_update_def newton_raphson_step_def)

lemma newton_update_funpow:
  "(\<And>k. k < n \<Longrightarrow> 1 - e * cos ((newton_raphson_step e M ^^ k) E) \<noteq> 0) \<Longrightarrow>
    (newton_update e M ^^ n) (Some E) = Some ((newton_raphson_step e M ^^ n) E)"
proof (induction n)
  case 0
  show ?case by simp
next
  case (Suc n)
  then have "(newton_update e M ^^ n) (Some E) = Some ((newton_raphson_step e M ^^ n) E)"
    by simp
  moreover have "1 - e * cos ((newton_raphson_step e M ^^ n) E) \<noteq> 0"
    using Suc.prems by simp
  ultimately show ?case
    by (simp add: newton_update_Some)
qed

lemma denominator_positive:
  fixes e E :: real
  assumes "0 \<le> e" and "e < 1"
  shows "0 < 1 - e * cos E"
proof -
  have "e * cos E \<le> e * 1"
    using assms(1) cos_le_one[of E] by (rule mult_left_mono[rotated])
  then show ?thesis using assms(2) by simp
qed

lemma funpow_fixed: "f a = a \<Longrightarrow> (f ^^ k) a = a"
  by (induction k) simp_all

subsection \<open>Reduction of angles\<close>

lemma normalize360_range: "0 \<le> normalize360 d \<and> normalize360 d < 360"
proof -
  have "real_of_int \<lfloor>d / 360\<rfloor> \<le> d / 360" "d / 360 < real_of_int \<lfloor>d / 360\<rfloor> + 1"
    by linarith+
  then show ?thesis
    by (simp add: normalize360_def field_simps)
qed

lemma fmod_nonneg:
  assumes "0 \<le> s"
  shows "fmod s 360 = normalize360 s"
  using assms by (simp add: fmod_def trunc_def normalize360_def)

lemma fmod_neg:
  assumes "s < 0"
  shows "fmod s 360 = (if normalize360 s \<noteq> 0 then normalize360 s - 360 else normalize360 s)"
proof (cases "normalize360 s = 0")
  case True
  then have "s / 360 = real_of_int \<lfloor>s / 360\<rfloor>"
    by (simp add: normalize360_def)
  then have "\<lceil>s / 360\<rceil> = \<lfloor>s / 360\<rfloor>"
    by (metis ceiling_of_int)
  then show ?thesis
    using assms True by (simp add: fmod_def trunc_def normalize360_def)
next
  case False
  then have "s / 360 \<noteq> real_of_int \<lfloor>s / 360\<rfloor>"
    by (simp add: normalize360_def)
  then have "\<lceil>s / 360\<rceil> = \<lfloor>s / 360\<rfloor> + 1"
    by (simp only: ceiling_altdef if_False)
  then show ?thesis
    using assms False by (simp add: fmod_def trunc_def normalize360_def algebra_simps)
qed

lemma fmod_360:
  "fmod s 360 = (if s < 0 \<and> normalize360 s \<noteq> 0 then normalize360 s - 360 else normalize360 s)"
  using fmod_nonneg[of s] fmod_neg[of s] by (cases "s < 0") simp_all

lemma atan2_range: "- pi < atan2 v u \<and> atan2 v u \<le> pi"
proof -
  have b: "- (pi / 2) < arctan (v / u)" "arctan (v / u) < pi / 2"
    by (rule arctan_lbound) (rule arctan_ubound)
  have nonneg: "arctan (v / u) \<le> 0" if "u < 0" "0 \<le> v"
  proof -
    have "v / u \<le> 0" using that by (simp add: divide_nonneg_neg)
    then show ?thesis by (simp add: arctan_le_zero_iff)
  qed
  have neg: "0 < arctan (v / u)" if "u < 0" "v < 0"
  proof -
    have "0 < v / u" using that by (simp add: divide_neg_neg)
    then show ?thesis by (simp add: zero_less_arctan_iff)
  qed
  show ?thesis
    using b nonneg neg pi_gt_zero by (auto simp: atan2_def)
qed

lemma M_PI_gt_3: "3 < M_PI"
  by (simp add: M_PI_def)

lemma longitude_deg_range:
  "- 360 < atan2 v u * (180 / M_PI) \<and> atan2 v u * (180 / M_PI) < 360"
proof -
  have a: "- 4 < atan2 v u" "atan2 v u < 4"
    using atan2_range[of v u] pi_less_4 by linarith+
  have m: "0 < M_PI" "2 < M_PI"
    using M_PI_gt_3 by linarith+
  have "atan2 v u * 180 < 360 * M_PI" "- (360 * M_PI) < atan2 v u * 180"
    using a m by linarith+
  then show ?thesis
    using m(1) by (simp add: field_simps)
qed

lemma fmod_small:
  assumes "\<bar>a\<bar> < b"
  shows "fmod a b = a"
proof -
  have b: "0 < b"
    using assms by linarith
  have "trunc (a / b) = 0"
  proof (cases "0 \<le> a")
    case True
    then have "0 \<le> a / b" "a / b < 1"
      using assms b by simp_all
    then show ?thesis
      by (simp add: trunc_def floor_eq_iff)
  next
    case False
    then have "- 1 < a / b" "a / b < 0"
      using assms b by (simp_all add: field_simps)
    then show ?thesis
      by (simp add: trunc_def ceiling_eq_iff)
  qed
  then show ?thesis
    by (simp add: fmod_def)
qed

subsection \<open>Rounding of the last addition\<close>

lemma round_half_even_bounds: "\<lfloor>r\<rfloor> \<le> round_half_even r \<and> round_half_even r \<le> \<lceil>r\<rceil>"
proof (cases "r = real_of_int \<lfloor>r\<rfloor>")
  case True
  then have "r - real_of_int \<lfloor>r\<rfloor> < 1 / 2"
    by simp
  then have "round_half_even r = \<lfloor>r\<rfloor>"
    by (simp add: round_half_even_def)
  then show ?thesis
    by (simp add: floor_le_ceiling)
next
  case False
  then have "\<lceil>r\<rceil> = \<lfloor>r\<rfloor> + 1"
    by (simp only: ceiling_altdef if_False)
  then show ?thesis
    by (simp add: round_half_even_def)
qed

lemma round_double_below_360:
  assumes "0 < v" and "v < 360"
  shows "0 \<le> round_double v \<and> round_double v \<le> 360"
proof -
  define k where "k = max \<lfloor>log 2 \<bar>v\<bar>\<rfloor> (- 1022) - 52"
  define n where "n = nat (- k)"
  have u: "ulp v = 2 powr real_of_int k"
    by (simp add: ulp_def k_def)
  have "log 2 v < 9"
    using assms by (simp add: log_less_iff)
  then have "\<lfloor>log 2 \<bar>v\<bar>\<rfloor> \<le> 8"
    using assms(1) by (simp add: floor_le_iff)
  then have "k \<le> - 44"
    by (simp add: k_def)
  then have kn: "k = - int n"
    by (simp add: n_def)
  have un: "ulp v = 1 / 2 ^ n"
    by (simp add: u kn powr_minus_divide powr_realpow)
  have upos: "0 < ulp v"
    by (simp add: un)
  have "0 \<le> \<lfloor>v / ulp v\<rfloor>"
    using assms(1) upos by simp
  then have lo: "0 \<le> round_half_even (v / ulp v)"
    using round_half_even_bounds[of "v / ulp v"] by linarith
  have "v / ulp v \<le> real_of_int (360 * 2 ^ n)"
    using assms(2) by (simp add: un)
  then have "\<lceil>v / ulp v\<rceil> \<le> 360 * 2 ^ n"
    by (simp only: ceiling_le_iff)
  then have "round_half_even (v / ulp v) \<le> 360 * 2 ^ n"
    using round_half_even_bounds[of "v / ulp v"] by linarith
  then have "real_of_int (round_half_even (v / ulp v)) \<le> 360 * 2 ^ n"
    by (metis of_int_le_iff of_int_numeral of_int_mult of_int_power)
  then have hi: "real_of_int (round_half_even (v / ulp v)) * ulp v \<le> 360"
    by (simp add: un field_simps)
  show ?thesis
    using assms(1) lo hi upos by (simp add: round_double_def)
qed

lemma ulp_near_360:
  assumes "256 \<le> v" and "v < 512"
  shows "ulp v = 1 / 2 ^ 44"
proof -
  have "\<lfloor>log 2 v\<rfloor> = 8"
    using assms by (subst floor_log_eq_powr_iff) simp_all
  then have "ulp v = 2 powr (- 44)"
    using assms by (simp add: ulp_def)
  also have "\<dots> = 1 / 2 ^ 44"
    by (simp add: powr_minus_divide)
  finally show ?thesis .
qed

lemma double_add_below_360: "double_add (- (1 / 87660000000000)) 360 = 360"
proof -
  let ?v = "- (1 / 87660000000000) + (360::real)"
  have u: "ulp ?v = 1 / 2 ^ 44"
    by (rule ulp_near_360) simp_all
  have q: "?v / (1 / 2 ^ 44) = 6333186975989760 - 17592186044416 / 87660000000000"
    by simp
  have fl: "\<lfloor>?v / (1 / 2 ^ 44)\<rfloor> = 6333186975989759"
    unfolding q by (simp add: floor_eq_iff)
  have r: "round_half_even (?v / (1 / 2 ^ 44)) = 6333186975989760"
    unfolding round_half_even_def fl unfolding q by simp
  have nz: "?v \<noteq> 0"
    by simp
  have "round_double ?v = real_of_int 6333186975989760 * (1 / 2 ^ 44)"
    unfolding round_double_def u r using nz by (simp only: if_False)
  also have "\<dots> = 360"
    by simp
  finally show ?thesis
    by (simp only: double_add_def)
qed

subsection \<open>Circular orbits and the rotation\<close>

lemma atan2_polar:
  assumes "0 < r" and "- (pi / 2) < th" and "th < pi / 2"
  shows "atan2 (r * sin th) (r * cos th) = th"
proof -
  have c: "0 < cos th"
    using assms(2,3) by (rule cos_gt_zero_pi)
  then have "0 < r * cos th"
    using assms(1) by simp
  moreover have "r * sin th / (r * cos th) = tan th"
    using assms(1) by (simp add: tan_def)
  ultimately show ?thesis
    using assms(2,3) by (simp add: atan2_def arctan_tan)
qed

lemma rotation_without_angles:
  assumes "arg_periapsis_deg p = 0" and "lon_asc_node_deg p = 0" and "inclination_deg p = 0"
  shows "x_ecl p xo yo = xo" and "y_ecl p xo yo = yo"
  using assms by (simp_all add: x_ecl_def y_ecl_def w_rad_def N_rad_def i_rad_def)



lemma rotation_keeps_norm:
  "(x_ecl p a b)\<^sup>2 + (y_ecl p a b)\<^sup>2 + (z_ecl p a b)\<^sup>2 = a\<^sup>2 + b\<^sup>2"
proof -
  have w: "(sin (w_rad p))\<^sup>2 + (cos (w_rad p))\<^sup>2 = 1"
    and n: "(sin (N_rad p))\<^sup>2 + (cos (N_rad p))\<^sup>2 = 1"
    and i: "(sin (i_rad p))\<^sup>2 + (cos (i_rad p))\<^sup>2 = 1"
    by simp_all
  show ?thesis
    unfolding x_ecl_def y_ecl_def z_ecl_def
    using w n i by algebra
qed

lemma circular_orbit:
  assumes "eccentricity p = 0"
  shows "y_orb p E = Some (semi_major_axis_au p * sin E)"
    and "(x_orb p E)\<^sup>2 + (semi_major_axis_au p * sin E)\<^sup>2 = (semi_major_axis_au p)\<^sup>2"
proof -
  show "y_orb p E = Some (semi_major_axis_au p * sin E)"
    using assms by (simp add: y_orb_def sqrt_c_def)
  have "(sin E)\<^sup>2 + (cos E)\<^sup>2 = 1"
    by simp
  then have "(semi_major_axis_au p * (cos E - 0))\<^sup>2 + (semi_major_axis_au p * sin E)\<^sup>2
      = (semi_major_axis_au p)\<^sup>2"
    by algebra
  then show "(x_orb p E)\<^sup>2 + (semi_major_axis_au p * sin E)\<^sup>2 = (semi_major_axis_au p)\<^sup>2"
    by (simp only: x_orb_def assms)
qed

lemma kepler_for_circular: "kepler_for 0 0 M (Some M) = Some M"
proof -
  have "newton_update 0 M (Some M) = Some M"
    by (simp add: newton_update_def)
  then show ?thesis
    by (simp add: kepler_for_funpow funpow_fixed del: funpow.simps)
qed

subsection \<open>The concrete scenario of the specification\<close>

lemma kepler_for_origin:
  assumes "e \<noteq> 1"
  shows "kepler_for 0 e 0 (Some 0) = Some 0"
proof -
  have "newton_update e 0 (Some 0) = Some 0"
    using assms by (simp add: newton_update_def)
  then show ?thesis
    by (simp add: kepler_for_funpow funpow_fixed del: funpow.simps)
qed

lemma M_rad_earth_epoch: "M_rad earth 0 = 0"
  by (simp add: M_rad_def mean_anomaly_def days_since_epoch_def difftime_def fmod_def
      trunc_def earth_def)

lemma longitude_earth_epoch: "calculate_longitude earth 0 = Some 0"
proof -
  have e: "eccentricity earth = 0.0167" and a: "semi_major_axis_au earth = 1"
    by (simp_all add: earth_def)
  have k: "kepler_for 0 (eccentricity earth) (M_rad earth 0) (Some (M_rad earth 0)) = Some 0"
    by (simp add: M_rad_earth_epoch e kepler_for_origin)
  have yo: "y_orb earth 0 = Some 0"
    by (simp add: y_orb_def sqrt_c_def earth_def)
  have xo: "x_orb earth 0 = 0.9833"
    by (simp add: x_orb_def earth_def)
  have rot: "x_ecl earth 0.9833 0 = 0.9833" "y_ecl earth 0.9833 0 = 0"
    by (simp_all add: x_ecl_def y_ecl_def w_rad_def N_rad_def i_rad_def earth_def)
  have at: "atan2 0 0.9833 = 0"
    by (simp add: atan2_def)
  have "calculate_longitude earth 0 =
      Some (let d = atan2 (y_ecl earth (x_orb earth 0) 0) (x_ecl earth (x_orb earth 0) 0)
                      * (180 / M_PI)
            in if d < 0 then double_add d 360 else d)"
    by (simp add: calculate_longitude_def k yo a Let_def)
  also have "\<dots> = Some (let d = 0 * (180 / M_PI) in if d < 0 then double_add d 360 else d)"
    by (simp only: xo rot at)
  also have "\<dots> = Some 0"
    by simp
  finally show ?thesis .
qed

lemma position_earth_epoch: "position earth_3d 0 = (Some 0.9833, Some 0, Some 0)"
proof -
  have m: "M_rad earth_3d 0 = 0"
    by (simp add: M_rad_def mean_anomaly_def days_since_epoch_def difftime_def fmod_def
      trunc_def earth_3d_def)
  have e: "eccentricity earth_3d = 0.0167" and a: "semi_major_axis_au earth_3d = 1"
    by (simp_all add: earth_3d_def)
  have k: "kepler_for 0 (eccentricity earth_3d) (M_rad earth_3d 0) (Some (M_rad earth_3d 0)) = Some 0"
    by (simp add: m e kepler_for_origin)
  have yo: "y_orb earth_3d 0 = Some 0"
    by (simp add: y_orb_def sqrt_c_def earth_3d_def)
  have xo: "x_orb earth_3d 0 = 0.9833"
    by (simp add: x_orb_def earth_3d_def)
  have rot: "x_ecl earth_3d 0.9833 0 = 0.9833" "y_ecl earth_3d 0.9833 0 = 0"
     "z_ecl earth_3d 0.9833 0 = 0"
    by (simp_all add: x_ecl_def y_ecl_def z_ecl_def w_rad_def N_rad_def i_rad_def earth_3d_def)
  have "position earth_3d 0 =
      (Some (x_ecl earth_3d (x_orb earth_3d 0) 0), Some (y_ecl earth_3d (x_orb earth_3d 0) 0),
       Some (z_ecl earth_3d (x_orb earth_3d 0) 0))"
    by (simp add: position_def calculate_position_def k yo a Let_def)
  then show ?thesis
    by (simp only: xo rot)
qed

lemma mean_anomaly_earth_before: "mean_anomaly earth (- 86400) = - (360 / 365.25)"
  by (simp add: mean_anomaly_def mean_motion_def days_since_epoch_def difftime_def
      SECONDS_IN_DAY_def pow_def fmod_def trunc_def earth_def)

subsection \<open>The range of the longitude\<close>

lemma longitude_at_most_360:
  assumes "calculate_longitude p t = Some l"
  shows "0 \<le> l \<and> l \<le> 360"
proof -
  have pos: "\<not> semi_major_axis_au p \<le> 0"
    using assms by (auto simp: calculate_longitude_def)
  obtain E_rad where
    k: "kepler_for 0 (eccentricity p) (M_rad p t) (Some (M_rad p t)) = Some E_rad"
    using assms pos
    by (cases "kepler_for 0 (eccentricity p) (M_rad p t) (Some (M_rad p t))")
       (simp_all add: calculate_longitude_def)
  obtain yo where yo: "y_orb p E_rad = Some yo"
    using assms pos k by (cases "y_orb p E_rad") (simp_all add: calculate_longitude_def)
  define d where
    "d = atan2 (y_ecl p (x_orb p E_rad) yo) (x_ecl p (x_orb p E_rad) yo) * (180 / M_PI)"
  have d: "- 360 < d" "d < 360"
    unfolding d_def
    using longitude_deg_range[of "y_ecl p (x_orb p E_rad) yo" "x_ecl p (x_orb p E_rad) yo"]
    by blast+
  have "calculate_longitude p t = Some (if d < 0 then double_add d 360 else d)"
    unfolding calculate_longitude_def d_def
    by (simp only: pos if_False k yo option.case Let_def)
  then have l: "l = (if d < 0 then double_add d 360 else d)"
    using assms by simp
  show ?thesis
  proof (cases "d < 0")
    case True
    then have "0 < d + 360" "d + 360 < 360"
      using d by simp_all
    then have "0 \<le> round_double (d + 360) \<and> round_double (d + 360) \<le> 360"
      by (rule round_double_below_360)
    then show ?thesis
      using True l by (simp add: double_add_def)
  next
    case False
    then show ?thesis
      using d l by simp
  qed
qed

lemma mean_anomaly_distant: "mean_anomaly distant (- 1) = - (1 / 87660000000000)"
proof -
  have "sqrt (1000000 ^ 3) = (1000000000::real)"
    by (rule real_sqrt_unique) simp_all
  then have "mean_anomaly_deg distant + mean_motion distant * days_since_epoch distant (- 1)
      = - (1 / 87660000000000)"
    by (simp add: mean_motion_def days_since_epoch_def difftime_def
      SECONDS_IN_DAY_def pow_def distant_def)
  then show ?thesis
    by (simp add: mean_anomaly_def fmod_small)
qed

lemma longitude_distant: "calculate_longitude distant (- 1) = Some 360"
proof -
  let ?m = "- (1 / 87660000000000) :: real"
  let ?E = "?m * M_PI / 180"
  have e: "eccentricity distant = 0" and a: "semi_major_axis_au distant = 1000000"
    and ang: "arg_periapsis_deg distant = 0" "lon_asc_node_deg distant = 0"
      "inclination_deg distant = 0"
    by (simp_all add: distant_def)
  have M: "M_rad distant (- 1) = ?E"
    by (simp only: M_rad_def mean_anomaly_distant)
  have k: "kepler_for 0 (eccentricity distant) (M_rad distant (- 1))
      (Some (M_rad distant (- 1))) = Some ?E"
    by (simp only: e M kepler_for_circular)
  have yo: "y_orb distant ?E = Some (1000000 * sin ?E)"
    using circular_orbit(1)[OF e, of ?E] by (simp only: a)
  have xo: "x_orb distant ?E = 1000000 * cos ?E"
    by (simp add: x_orb_def e a)
  have mpi: "3 < M_PI" "M_PI < 4"
    by (simp_all add: M_PI_def)
  have sm: "- 1 < ?E" "?E < 1"
    using mpi by simp_all
  have bE: "- (pi / 2) < ?E" "?E < pi / 2"
    using sm pi_ge_two by linarith+
  have at: "atan2 (1000000 * sin ?E) (1000000 * cos ?E) = ?E"
    using bE by (intro atan2_polar) simp_all
  have deg: "?E * (180 / M_PI) = ?m"
    using mpi by simp
  let ?D = "atan2 (y_ecl distant (x_orb distant ?E) (1000000 * sin ?E))
              (x_ecl distant (x_orb distant ?E) (1000000 * sin ?E)) * (180 / M_PI)"
  have D: "?D = ?m"
    by (simp only: rotation_without_angles[OF ang] xo at deg)
  have neg: "?m < 0"
    by simp
  have pos: "\<not> semi_major_axis_au distant \<le> 0"
    by (simp add: a)
  have "calculate_longitude distant (- 1) =
      Some (if ?D < 0 then double_add ?D 360 else ?D)"
    unfolding calculate_longitude_def
    by (simp only: pos if_False k yo option.case Let_def)
  also have "\<dots> = Some (double_add ?m 360)"
    unfolding D using neg by (simp only: if_True)
  also have "\<dots> = Some 360"
    by (simp only: double_add_below_360)
  finally show ?thesis .
qed

subsection \<open>The dates of the simulation loops\<close>

lemma num_days_rec:
  assumes le: "s \<le> e"
  shows "num_days s e = Suc (num_days (s + SECONDS_IN_DAY) e)"
proof (cases "s + 86400 \<le> e")
  case True
  have "(e - (s + 86400)) div 86400 = (e - s) div 86400 - 1"
    by (simp add: algebra_simps div_diff)
  moreover have "1 \<le> (e - s) div 86400"
    using True
    by (simp add: pos_le_divide_eq int_one_le_iff_zero_less pos_imp_zdiv_pos_iff)
  ultimately show ?thesis
    using le True by (simp add: num_days_def SECONDS_IN_DAY_def)
next
  case False
  then have "(e - s) div 86400 = 0"
    using le by simp
  then show ?thesis
    using le False by (simp add: num_days_def SECONDS_IN_DAY_def)
qed

lemma dates_rec: "dates s e = (if s \<le> e then s # dates (s + SECONDS_IN_DAY) e else [])"
proof (cases "s \<le> e")
  case True
  have "[0..<Suc n] = 0 # map Suc [0..<n]" for n
    by (simp add: upt_conv_Cons map_Suc_upt del: upt_Suc)
  then show ?thesis
    using True
    by (simp add: dates_def num_days_rec[OF True] comp_def algebra_simps del: upt_Suc)
next
  case False
  then show ?thesis by (simp add: dates_def num_days_def)
qed

subsection \<open>The rows of the simulation loops\<close>

lemma row_for_eq:
  "row_for planets t i = map (\<lambda>p. calculate_longitude p t) (drop i planets)"
proof (induction planets t i rule: row_for.induct)
  case (1 planets t i)
  show ?case
  proof (cases "i < length planets")
    case True
    then show ?thesis
      using 1 by (subst row_for.simps) (simp add: Cons_nth_drop_Suc[symmetric])
  next
    case False
    then show ?thesis by (subst row_for.simps) simp
  qed
qed

lemma simulation_loop_eq:
  "simulation_loop planets s e =
     map (\<lambda>d. (d, map (\<lambda>p. calculate_longitude p d) planets)) (dates s e)"
proof (induction planets s e rule: simulation_loop.induct)
  case (1 planets s e)
  show ?case
  proof (cases "s \<le> e")
    case True
    then show ?thesis
      using 1 by (subst simulation_loop.simps, subst dates_rec) (simp add: row_for_eq)
  next
    case False
    then show ?thesis by (subst simulation_loop.simps, subst dates_rec) simp
  qed
qed

lemma row_for_3d_eq:
  "row_for_3d planets t i =
     (take i planets @ map (\<lambda>p. calculate_position p t) (drop i planets),
      map (\<lambda>p. position p t) (drop i planets))"
proof (induction planets t i rule: row_for_3d.induct)
  case (1 planets t i)
  show ?case
  proof (cases "i < length planets")
    case True
    let ?ps = "planets[i := calculate_position (planets ! i) t]"
    have ih: "row_for_3d ?ps t (i + 1) =
        (take (i + 1) ?ps @ map (\<lambda>p. calculate_position p t) (drop (i + 1) ?ps),
         map (\<lambda>p. position p t) (drop (i + 1) ?ps))"
      using 1[OF True refl refl] .
    have tk: "take (i + 1) ?ps = take i planets @ [calculate_position (planets ! i) t]"
      using True by (simp add: take_Suc_conv_app_nth)
    have dr: "drop (i + 1) ?ps = drop (Suc i) planets"
      by simp
    have cons: "drop i planets = planets ! i # drop (Suc i) planets"
      using True by (simp add: Cons_nth_drop_Suc)
    show ?thesis
      using True
      by (subst row_for_3d.simps)
         (simp add: ih tk dr cons Let_def position_def del: One_nat_def)
  next
    case False
    then show ?thesis by (subst row_for_3d.simps) simp
  qed
qed

lemma simulation_loop_3d_eq:
  "simulation_loop_3d planets s e =
     map (\<lambda>d. (d, map (\<lambda>p. position p d) planets)) (dates s e)"
proof (induction planets s e rule: simulation_loop_3d.induct)
  case (1 planets s e)
  show ?case
  proof (cases "s \<le> e")
    case True
    let ?ps = "map (\<lambda>p. calculate_position p s) planets"
    have row: "row_for_3d planets s 0 = (?ps, map (\<lambda>p. position p s) planets)"
      by (simp add: row_for_3d_eq)
    have ih: "simulation_loop_3d ?ps (s + SECONDS_IN_DAY) e =
        map (\<lambda>d. (d, map (\<lambda>p. position p d) ?ps)) (dates (s + SECONDS_IN_DAY) e)"
      using 1[OF True row[symmetric]] .
    show ?thesis
      using True
      by (subst simulation_loop_3d.simps, subst dates_rec)
         (simp add: row ih comp_def position_calculate_position)
  next
    case False
    then show ?thesis by (subst simulation_loop_3d.simps, subst dates_rec) simp
  qed
qed

lemma nan_longitude:
  "semi_major_axis_au p \<le> 0 \<Longrightarrow> calculate_longitude p t = NAN"
  by (simp add: calculate_longitude_def)

lemma nan_position:
  "semi_major_axis_au p \<le> 0 \<Longrightarrow> position p t = (NAN, NAN, NAN)"
  by (simp add: position_def calculate_position_def)

lemma dates_two_days: "dates 0 86400 = [0, 86400]"
  by (simp add: dates_def num_days_def SECONDS_IN_DAY_def upt_conv_Cons)

section \<open>The claims\<close>

text \<open>
  C1. For every element set whose semi-major axis is zero or negative, and every
  target time, the calculator returns not-a-number in every output field: the longitude
  of \<open>calculate_longitude\<close>, and the three fields \<open>x\<close>, \<open>y\<close>, \<open>z\<close> written by
  \<open>calculate_position\<close>. The failure of that body does not abort the run: in the
  simulation loops every date of the range still has its row, the row has
  not-a-number in the cells of that body, and the cells of the bodies before and after
  it hold the values the calculator gives for them.
\<close>

theorem nonpositive_axis_is_nan:
  fixes p :: Planet and q :: Planet3D
  assumes "semi_major_axis_au p \<le> 0" and "semi_major_axis_au q \<le> 0"
  shows "calculate_longitude p t = NAN
    \<and> x (calculate_position q t) = NAN
    \<and> y (calculate_position q t) = NAN
    \<and> z (calculate_position q t) = NAN
    \<and> simulation_loop (ps @ p # ps') s e =
        map (\<lambda>d. (d, map (\<lambda>b. calculate_longitude b d) ps @ NAN
                        # map (\<lambda>b. calculate_longitude b d) ps')) (dates s e)
    \<and> simulation_loop_3d (qs @ q # qs') s e =
        map (\<lambda>d. (d, map (\<lambda>b. position b d) qs @ (NAN, NAN, NAN)
                        # map (\<lambda>b. position b d) qs')) (dates s e)"
proof -
  have "calculate_longitude p d = NAN" for d
    using assms(1) by (rule nan_longitude)
  moreover have pos: "position q d = (NAN, NAN, NAN)" for d
    using assms(2) by (rule nan_position)
  ultimately show ?thesis
    using pos[of t] by (simp add: simulation_loop_eq simulation_loop_3d_eq position_def)
qed

theorem nonpositive_axis_is_nan_witness:
  "semi_major_axis_au pluto \<le> 0 \<and> semi_major_axis_au pluto_3d \<le> 0
    \<and> calculate_longitude pluto 86400 = NAN
    \<and> x (calculate_position pluto_3d 86400) = NAN
    \<and> y (calculate_position pluto_3d 86400) = NAN
    \<and> z (calculate_position pluto_3d 86400) = NAN
    \<and> simulation_loop [earth, pluto, earth] 0 86400 =
        [(0, [calculate_longitude earth 0, NAN, calculate_longitude earth 0]),
         (86400, [calculate_longitude earth 86400, NAN, calculate_longitude earth 86400])]
    \<and> simulation_loop_3d [earth_3d, pluto_3d, earth_3d] 0 86400 =
        [(0, [position earth_3d 0, (NAN, NAN, NAN), position earth_3d 0]),
         (86400, [position earth_3d 86400, (NAN, NAN, NAN), position earth_3d 86400])]"
proof -
  have a: "semi_major_axis_au pluto \<le> 0"
    by (simp add: pluto_def)
  have b: "semi_major_axis_au pluto_3d \<le> 0"
    by (simp add: pluto_3d_def)
  show ?thesis
    using a b
      nonpositive_axis_is_nan[OF a b, of 86400 "[earth]" "[earth]" 0 86400
        "[earth_3d]" "[earth_3d]"]
    by (simp add: dates_two_days)
qed



text \<open>
  C7. The calculator is a function of the orbital elements and the target time alone:
  two planets with the same elements and epoch get the same longitude and the same
  position at the same time, whatever their names and whatever position is stored in
  them, and calling \<open>calculate_position\<close> again with the same time on the planet it
  has just updated changes nothing.
\<close>

theorem calculator_reads_elements_only:
  fixes p p' :: Planet and q q' :: Planet3D
  assumes "elements p = elements p'" and "elements q = elements q'"
  shows "calculate_longitude p t = calculate_longitude p' t
    \<and> position q t = position q' t
    \<and> calculate_position (calculate_position q t) t = calculate_position q t"
  using longitude_depends_on_elements[OF assms(1)] position_depends_on_elements[OF assms(2)]
    calculate_position_twice
  by blast

theorem calculator_reads_elements_only_witness:
  "elements earth = elements (earth\<lparr>name := ''Terra''\<rparr>)
    \<and> elements earth_3d = elements (earth_3d\<lparr>x := NAN, y := Some 1, z := Some 2\<rparr>)
    \<and> calculate_longitude earth 86400 = calculate_longitude (earth\<lparr>name := ''Terra''\<rparr>) 86400
    \<and> position earth_3d 86400 = position (earth_3d\<lparr>x := NAN, y := Some 1, z := Some 2\<rparr>) 86400
    \<and> calculate_position (calculate_position earth_3d 86400) 86400 =
        calculate_position earth_3d 86400"
proof -
  have a: "elements earth = elements (earth\<lparr>name := ''Terra''\<rparr>)"
    by (simp add: elements_def)
  have b: "elements earth_3d = elements (earth_3d\<lparr>x := NAN, y := Some 1, z := Some 2\<rparr>)"
    by (simp add: elements_def)
  show ?thesis
    using a b calculator_reads_elements_only[OF a b, of 86400]
    by simp
qed

text \<open>
  C9. The calculator does not change the orbital elements. \<open>calculate_position\<close>
  returns the planet it was given with the fields \<open>x\<close>, \<open>y\<close>, \<open>z\<close> written and
  nothing else: the six elements and the epoch (and the name and the identifier) are
  the ones of the argument. \<open>calculate_longitude\<close> has no assignment through its
  pointer argument, so it is a function from the planet to the longitude.
\<close>

theorem calculate_position_frame:
  "eccentricity (calculate_position q t) = eccentricity q
    \<and> semi_major_axis_au (calculate_position q t) = semi_major_axis_au q
    \<and> inclination_deg (calculate_position q t) = inclination_deg q
    \<and> lon_asc_node_deg (calculate_position q t) = lon_asc_node_deg q
    \<and> arg_periapsis_deg (calculate_position q t) = arg_periapsis_deg q
    \<and> mean_anomaly_deg (calculate_position q t) = mean_anomaly_deg q
    \<and> epoch (calculate_position q t) = epoch q
    \<and> calculate_position q t =
        q\<lparr>x := x (calculate_position q t), y := y (calculate_position q t),
          z := z (calculate_position q t)\<rparr>"
proof -
  have "elements (calculate_position q t) = elements q"
    by (rule elements_calculate_position)
  then show ?thesis
    using calculate_position_writes[of q t] by (simp add: elements_def)
qed

text \<open>
  C2. For every mean anomaly \<open>M\<close> and eccentricity \<open>e\<close>, the solver loop, entered with
  \<open>i = 0\<close> and \<open>E = M\<close>, returns the tenth iterate of the loop body from \<open>M\<close>: no
  test of convergence, no early exit. The loop body is the Newton-Raphson update
  \<open>E - (E - e sin E - M) / (1 - e cos E)\<close>: when no divisor on the way is zero, the
  result is the tenth iterate of that update on the real numbers, whatever its
  distance from a solution.
\<close>

theorem kepler_ten_iterations:
  "kepler_for 0 e M (Some M) = (newton_update e M ^^ 10) (Some M)
   \<and> ((\<forall>k<10. 1 - e * cos ((newton_raphson_step e M ^^ k) M) \<noteq> 0) \<longrightarrow>
        kepler_for 0 e M (Some M) = Some ((newton_raphson_step e M ^^ 10) M))"
proof -
  have "(newton_update e M ^^ 10) (Some M) = Some ((newton_raphson_step e M ^^ 10) M)"
    if "\<forall>k<10. 1 - e * cos ((newton_raphson_step e M ^^ k) M) \<noteq> 0"
    using that by (intro newton_update_funpow) blast
  then show ?thesis
    by (simp add: kepler_for_funpow del: funpow.simps)
qed

theorem kepler_ten_iterations_witness:
  "kepler_for 0 0.0167 0 (Some 0) = (newton_update 0.0167 0 ^^ 10) (Some 0)
   \<and> kepler_for 0 0.0167 0 (Some 0) = Some ((newton_raphson_step 0.0167 0 ^^ 10) 0)
   \<and> kepler_for 0 0.0167 0 (Some 0) = Some 0"
proof -
  have fixed: "(newton_raphson_step 0.0167 0 ^^ k) 0 = 0" for k
    by (rule funpow_fixed) (simp add: newton_raphson_step_def)
  have h: "\<forall>k<10. 1 - 0.0167 * cos ((newton_raphson_step 0.0167 0 ^^ k) 0) \<noteq> (0::real)"
    using fixed by simp
  note inst = kepler_ten_iterations[of "0.0167" 0]
  have c1: "kepler_for 0 0.0167 0 (Some 0) = (newton_update 0.0167 0 ^^ 10) (Some 0)"
    using inst by (rule conjunct1)
  have c2: "kepler_for 0 0.0167 0 (Some 0) = Some ((newton_raphson_step 0.0167 0 ^^ 10) 0)"
    using inst h by blast
  have c3: "kepler_for 0 0.0167 0 (Some 0) = Some 0"
    using c2 by (simp only: fixed)
  show ?thesis
    using c1 c2 c3 by blast
qed

text \<open>
  C10. For every eccentricity \<open>e\<close> with \<open>0 \<le> e < 1\<close>, the divisor \<open>1 - e cos E\<close> is
  positive for every \<open>E\<close>, in particular for every value the iteration reaches: each
  iterate from \<open>M\<close> is a number with a positive divisor, and the solver loop returns a
  number, never the not-a-number of a division by zero.
\<close>

theorem denominator_never_zero:
  assumes "0 \<le> e" and "e < 1"
  shows "0 < 1 - e * cos E
    \<and> (\<exists>E'. (newton_update e M ^^ k) (Some M) = Some E' \<and> 0 < 1 - e * cos E')
    \<and> (\<exists>E'. kepler_for 0 e M (Some M) = Some E')"
proof -
  have pos: "0 < 1 - e * cos E'" for E'
    using assms by (rule denominator_positive)
  then have "1 - e * cos E' \<noteq> 0" for E'
    by (simp add: less_imp_neq[THEN not_sym])
  then have "(newton_update e M ^^ n) (Some M) = Some ((newton_raphson_step e M ^^ n) M)" for n
    by (intro newton_update_funpow)
  then show ?thesis
    using pos by (simp add: kepler_for_funpow del: funpow.simps)
qed

theorem denominator_never_zero_witness:
  "(0::real) \<le> 0.0167 \<and> (0.0167::real) < 1
    \<and> 0 < 1 - 0.0167 * cos (0::real)
    \<and> (\<exists>E'. (newton_update 0.0167 0 ^^ 3) (Some 0) = Some E' \<and> 0 < 1 - 0.0167 * cos E')
    \<and> (\<exists>E'. kepler_for 0 0.0167 0 (Some 0) = Some E')"
proof -
  have a: "(0::real) \<le> 0.0167" and b: "(0.0167::real) < 1"
    by simp_all
  show ?thesis
    using a b denominator_never_zero[OF a b, where E = 0 and M = 0 and k = 3] by simp
qed

text \<open>
  C8. For every element set with semi-major axis \<open>a > 0\<close>, the \<open>sqrt(pow(a, 3))\<close> of
  the code is \<open>a\<close> to the power 1.5, and the mean motion used for the propagation is
  360 divided by the product of that power and 365.25, in degrees a day.
\<close>

theorem mean_motion_formula:
  assumes "0 < semi_major_axis_au p"
  shows "sqrt (pow (semi_major_axis_au p) 3) = semi_major_axis_au p powr 1.5
    \<and> mean_motion p = 360 / (semi_major_axis_au p powr 1.5 * 365.25)"
proof -
  let ?a = "semi_major_axis_au p"
  have cube: "?a ^ 3 = ?a powr 3"
    using assms by simp
  have "sqrt (?a ^ 3) = sqrt (?a powr 3)"
    by (simp only: cube)
  also have "\<dots> = (?a powr 3) powr (1 / 2)"
    by (rule powr_half_sqrt[symmetric]) simp
  also have "\<dots> = ?a powr (3 * (1 / 2))"
    by (rule powr_powr)
  also have "3 * (1 / 2) = (1.5::real)"
    by simp
  finally have root: "sqrt (?a ^ 3) = ?a powr 1.5" .
  show ?thesis
    by (simp only: mean_motion_def pow_def root simp_thms)
qed

theorem mean_motion_formula_witness:
  "0 < semi_major_axis_au earth
    \<and> sqrt (pow (semi_major_axis_au earth) 3) = semi_major_axis_au earth powr 1.5
    \<and> mean_motion earth = 360 / (semi_major_axis_au earth powr 1.5 * 365.25)
    \<and> mean_motion earth = 360 / 365.25"
proof -
  have a: "0 < semi_major_axis_au earth"
    by (simp add: earth_def)
  show ?thesis
    using a mean_motion_formula[OF a] by (simp add: earth_def)
qed

text \<open>
  C3, as amended. For every valid element set and every target time, the mean anomaly
  passed on to the solver is \<open>fmod\<close> of the sum \<open>s\<close> of the mean anomaly at the epoch
  and mean motion times elapsed days, by 360. It lies strictly between -360 and 360
  and has the sign of \<open>s\<close>: it is \<open>normalize360 s\<close>, in \<open>[0, 360)\<close>, when \<open>s\<close> is not
  negative or is a multiple of 360, and \<open>normalize360 s - 360\<close>, in \<open>(-360, 0)\<close>,
  otherwise. The claim as stated, that it is \<open>normalize360 s\<close> and in \<open>[0, 360)\<close> also
  for times before the epoch, fails one day before the epoch of \<open>earth\<close>.
\<close>

theorem mean_anomaly_fmod:
  assumes "0 < semi_major_axis_au p"
    and "s = mean_anomaly_deg p + mean_motion p * days_since_epoch p t"
  shows "mean_anomaly p t =
      (if s < 0 \<and> normalize360 s \<noteq> 0 then normalize360 s - 360 else normalize360 s)
    \<and> 0 \<le> normalize360 s \<and> normalize360 s < 360
    \<and> - 360 < mean_anomaly p t \<and> mean_anomaly p t < 360
    \<and> 0 \<le> s * mean_anomaly p t"
proof -
  have m: "mean_anomaly p t = fmod s 360"
    by (simp add: mean_anomaly_def assms(2))
  have r: "0 \<le> normalize360 s" "normalize360 s < 360"
    using normalize360_range[of s] by simp_all
  show ?thesis
  proof (cases "s < 0 \<and> normalize360 s \<noteq> 0")
    case True
    then have "fmod s 360 = normalize360 s - 360"
      by (simp add: fmod_360)
    moreover have "0 \<le> s * (normalize360 s - 360)"
      using True r by (intro mult_nonpos_nonpos) simp_all
    ultimately show ?thesis
      using True r m by simp
  next
    case False
    then have f: "fmod s 360 = normalize360 s"
      by (simp add: fmod_360)
    have "0 \<le> s * normalize360 s"
    proof (cases "s < 0")
      case True
      then show ?thesis using False by simp
    next
      case False
      then show ?thesis using r by simp
    qed
    then show ?thesis
      using False r m f by simp
  qed
qed

theorem mean_anomaly_fmod_witness:
  "0 < semi_major_axis_au earth
    \<and> mean_anomaly earth (- 86400) =
      (if mean_anomaly_deg earth + mean_motion earth * days_since_epoch earth (- 86400) < 0
          \<and> normalize360 (mean_anomaly_deg earth
                + mean_motion earth * days_since_epoch earth (- 86400)) \<noteq> 0
       then normalize360 (mean_anomaly_deg earth
                + mean_motion earth * days_since_epoch earth (- 86400)) - 360
       else normalize360 (mean_anomaly_deg earth
                + mean_motion earth * days_since_epoch earth (- 86400)))
    \<and> 0 \<le> normalize360 (mean_anomaly_deg earth
                + mean_motion earth * days_since_epoch earth (- 86400))
    \<and> normalize360 (mean_anomaly_deg earth
                + mean_motion earth * days_since_epoch earth (- 86400)) < 360
    \<and> - 360 < mean_anomaly earth (- 86400) \<and> mean_anomaly earth (- 86400) < 360
    \<and> 0 \<le> (mean_anomaly_deg earth + mean_motion earth * days_since_epoch earth (- 86400))
          * mean_anomaly earth (- 86400)"
proof -
  have a: "0 < semi_major_axis_au earth"
    by (simp add: earth_def)
  show ?thesis
    using a mean_anomaly_fmod[OF a refl, of "- 86400"] by blast
qed

text \<open>
  C3, as stated, at a concrete input: \<open>earth\<close> has a positive semi-major axis and
  its epoch at time 0; one day earlier the mean anomaly handed to the solver is
  \<open>- 360 / 365.25\<close> degrees, which is negative and is not \<open>normalize360\<close> of the sum.
\<close>

theorem mean_anomaly_negative_counterexample:
  "0 < semi_major_axis_au earth
   \<and> mean_anomaly earth (- 86400) = - (360 / 365.25)
   \<and> \<not> (0 \<le> mean_anomaly earth (- 86400) \<and> mean_anomaly earth (- 86400) < 360)
   \<and> mean_anomaly earth (- 86400) \<noteq>
       normalize360 (mean_anomaly_deg earth + mean_motion earth * days_since_epoch earth (- 86400))"
proof -
  have "0 \<le> normalize360 (mean_anomaly_deg earth + mean_motion earth * days_since_epoch earth (- 86400))"
    using normalize360_range by blast
  then show ?thesis
    by (simp add: mean_anomaly_earth_before) (simp add: earth_def)
qed

text \<open>
  C5. For every valid element set with eccentricity 0 and every target time, the
  solver returns the mean anomaly it was given; the point of the orbital plane is at
  distance \<open>a\<close> from the centre for every eccentric anomaly; the rotation keeps the
  norm of every point of the orbital plane; and the position that
  \<open>calculate_position\<close> writes is three numbers whose squares add up to \<open>a\<^sup>2\<close>.
\<close>

theorem circular_orbit_radius:
  fixes p :: "'a Planet_scheme" and q :: Planet3D
  assumes "eccentricity p = 0" and "0 < semi_major_axis_au p"
    and "eccentricity q = 0" and "0 < semi_major_axis_au q"
  shows "kepler_for 0 (eccentricity p) (M_rad p t) (Some (M_rad p t)) = Some (M_rad p t)
    \<and> y_orb p E = Some (semi_major_axis_au p * sin E)
    \<and> (x_orb p E)\<^sup>2 + (semi_major_axis_au p * sin E)\<^sup>2 = (semi_major_axis_au p)\<^sup>2
    \<and> (x_ecl p xo yo)\<^sup>2 + (y_ecl p xo yo)\<^sup>2 + (z_ecl p xo yo)\<^sup>2 = xo\<^sup>2 + yo\<^sup>2
    \<and> (\<exists>xv yv zv. position q t = (Some xv, Some yv, Some zv)
          \<and> xv\<^sup>2 + yv\<^sup>2 + zv\<^sup>2 = (semi_major_axis_au q)\<^sup>2)"
proof -
  let ?M = "M_rad q t"
  let ?xo = "x_orb q ?M" and ?yo = "semi_major_axis_au q * sin ?M"
  have k: "kepler_for 0 (eccentricity q) ?M (Some ?M) = Some ?M"
    using assms(3) by (simp add: kepler_for_circular)
  have yo: "y_orb q ?M = Some ?yo"
    using assms(3) by (rule circular_orbit(1))
  have pos: "position q t = (Some (x_ecl q ?xo ?yo), Some (y_ecl q ?xo ?yo), Some (z_ecl q ?xo ?yo))"
    using assms(4) by (simp add: position_def calculate_position_def k yo Let_def)
  have "(x_ecl q ?xo ?yo)\<^sup>2 + (y_ecl q ?xo ?yo)\<^sup>2 + (z_ecl q ?xo ?yo)\<^sup>2 = ?xo\<^sup>2 + ?yo\<^sup>2"
    by (rule rotation_keeps_norm)
  also have "\<dots> = (semi_major_axis_au q)\<^sup>2"
    using assms(3) by (rule circular_orbit(2))
  finally have "\<exists>xv yv zv. position q t = (Some xv, Some yv, Some zv)
      \<and> xv\<^sup>2 + yv\<^sup>2 + zv\<^sup>2 = (semi_major_axis_au q)\<^sup>2"
    using pos by blast
  moreover have "kepler_for 0 (eccentricity p) (M_rad p t) (Some (M_rad p t)) = Some (M_rad p t)"
    using assms(1) by (simp add: kepler_for_circular)
  ultimately show ?thesis
    using circular_orbit[OF assms(1)] rotation_keeps_norm[of p xo yo] by blast
qed

theorem circular_orbit_radius_witness:
  "eccentricity circular = 0 \<and> 0 < semi_major_axis_au circular
    \<and> eccentricity circular_3d = 0 \<and> 0 < semi_major_axis_au circular_3d
    \<and> kepler_for 0 (eccentricity circular) (M_rad circular 86400)
          (Some (M_rad circular 86400)) = Some (M_rad circular 86400)
    \<and> y_orb circular 1 = Some (semi_major_axis_au circular * sin 1)
    \<and> (x_orb circular 1)\<^sup>2 + (semi_major_axis_au circular * sin 1)\<^sup>2
        = (semi_major_axis_au circular)\<^sup>2
    \<and> (x_ecl circular 3 4)\<^sup>2 + (y_ecl circular 3 4)\<^sup>2 + (z_ecl circular 3 4)\<^sup>2
        = 3\<^sup>2 + 4\<^sup>2
    \<and> (\<exists>xv yv zv. position circular_3d 86400 = (Some xv, Some yv, Some zv)
          \<and> xv\<^sup>2 + yv\<^sup>2 + zv\<^sup>2 = (semi_major_axis_au circular_3d)\<^sup>2)"
proof -
  have a: "eccentricity circular = 0" and b: "0 < semi_major_axis_au circular"
    and c: "eccentricity circular_3d = 0" and d: "0 < semi_major_axis_au circular_3d"
    by (simp_all add: circular_def circular_3d_def)
  show ?thesis
    using a b c d
      circular_orbit_radius[OF a b c d, where t = 86400 and E = 1 and xo = 3 and yo = 4]
    by blast
qed

text \<open>
  C4. The claim is that every longitude \<open>calculate_longitude\<close> computes lies in
  \<open>[0, 360)\<close>. The code adds 360 to a negative angle to that end, but the sum of doubles
  is rounded: for a negative angle closer to zero than half the distance between the
  doubles next to 360, the sum is the double 360 itself. For the body \<open>distant\<close>, one
  second before its epoch, the angle is \<open>- 1 / 87660000000000\<close> degrees and the function
  returns exactly 360, which is not below 360. Every longitude the function computes
  lies between 0 and 360, both included.
\<close>

theorem longitude_reaches_360:
  "0 < semi_major_axis_au distant \<and> calculate_longitude distant (- 1) = Some 360"
  by (simp add: longitude_distant) (simp add: distant_def)

end
